theory Spec2Isabelle
  imports Complex_Main
begin

section \<open>The graphics context\<close>

text \<open>
  The render target of \<^verbatim>\<open>cubismrendertarget_webgl.ts\<close> talks to a WebGL context, which is
  not part of the repository. The context is modelled as a recording mock: it keeps the
  framebuffer and texture bindings, the objects that were created and not yet deleted, a
  counter that hands out fresh object handles, and the list of every call it received, in
  order. What the real context decides by itself (whether \<^verbatim>\<open>createTexture\<close> and
  \<^verbatim>\<open>createFramebuffer\<close> return an object or null, whether the framebuffer is complete) is
  read from three lists of outcomes, one entry per call; an exhausted list means success.
  Deleting an object removes it from the live objects and leaves the bindings alone: the
  code binds something else before each deletion. \<^verbatim>\<open>console.error\<close> is not
  modelled.
\<close>

type_synonym handle = nat
type_synonym ctx_id = nat
type_synonym target_id = nat

datatype fb_target = FRAMEBUFFER | READ_FRAMEBUFFER | DRAW_FRAMEBUFFER

datatype tex_param = TEXTURE_WRAP_S | TEXTURE_WRAP_T | TEXTURE_MIN_FILTER | TEXTURE_MAG_FILTER

datatype tex_value = CLAMP_TO_EDGE | LINEAR | NEAREST

datatype buffer_bit = COLOR_BUFFER_BIT | DEPTH_BUFFER_BIT | STENCIL_BUFFER_BIT

datatype gl_call =
    CreateTexture
  | BindTexture "handle option"
  | TexImage2D int int
  | TexParameteri tex_param tex_value
  | DeleteTexture "handle option"
  | CreateFramebuffer
  | BindFramebuffer fb_target "handle option"
  | FramebufferTexture2D "handle option"
  | CheckFramebufferStatus
  | DeleteFramebuffer "handle option"
  | GetParameter_FRAMEBUFFER_BINDING
  | BlitFramebuffer int int int int int int int int "buffer_bit list" tex_value
  | ClearColor real real real real
  | Clear "buffer_bit list"

record gl_context =
  is_webgl2 :: bool
  draw_binding :: "handle option"
  read_binding :: "handle option"
  texture_binding :: "handle option"
  live_textures :: "handle set"
  live_framebuffers :: "handle set"
  next_handle :: handle
  texture_outcomes :: "bool list"
  framebuffer_outcomes :: "bool list"
  status_outcomes :: "bool list"
  calls :: "gl_call list"

text \<open>A store of contexts: a render target keeps a reference to its context, and several
  targets share one context.\<close>

type_synonym store = "ctx_id \<Rightarrow> gl_context"

definition logged :: "gl_call \<Rightarrow> gl_context \<Rightarrow> gl_context" where
  "logged call g = g\<lparr>calls := calls g @ [call]\<rparr>"

fun next_outcome :: "bool list \<Rightarrow> bool \<times> bool list" where
  "next_outcome [] = (True, [])"
| "next_outcome (b # bs) = (b, bs)"

definition createTexture :: "gl_context \<Rightarrow> handle option \<times> gl_context" where
  "createTexture g =
     (let (ok, rest) = next_outcome (texture_outcomes g);
          g1 = logged CreateTexture (g\<lparr>texture_outcomes := rest\<rparr>)
      in if ok
         then (Some (next_handle g),
               g1\<lparr>live_textures := insert (next_handle g) (live_textures g),
                  next_handle := Suc (next_handle g)\<rparr>)
         else (None, g1))"

definition bindTexture :: "handle option \<Rightarrow> gl_context \<Rightarrow> gl_context" where
  "bindTexture tex g = logged (BindTexture tex) (g\<lparr>texture_binding := tex\<rparr>)"

definition texImage2D :: "int \<Rightarrow> int \<Rightarrow> gl_context \<Rightarrow> gl_context" where
  "texImage2D w h g = logged (TexImage2D w h) g"

definition texParameteri :: "tex_param \<Rightarrow> tex_value \<Rightarrow> gl_context \<Rightarrow> gl_context" where
  "texParameteri p v g = logged (TexParameteri p v) g"

definition deleteTexture :: "handle option \<Rightarrow> gl_context \<Rightarrow> gl_context" where
  "deleteTexture tex g =
     logged (DeleteTexture tex)
       (case tex of None \<Rightarrow> g
        | Some h \<Rightarrow> g\<lparr>live_textures := live_textures g - {h}\<rparr>)"

definition createFramebuffer :: "gl_context \<Rightarrow> handle option \<times> gl_context" where
  "createFramebuffer g =
     (let (ok, rest) = next_outcome (framebuffer_outcomes g);
          g1 = logged CreateFramebuffer (g\<lparr>framebuffer_outcomes := rest\<rparr>)
      in if ok
         then (Some (next_handle g),
               g1\<lparr>live_framebuffers := insert (next_handle g) (live_framebuffers g),
                  next_handle := Suc (next_handle g)\<rparr>)
         else (None, g1))"

text \<open>In WebGL2 \<^verbatim>\<open>FRAMEBUFFER\<close> sets the draw and the read binding, and
  \<^verbatim>\<open>FRAMEBUFFER_BINDING\<close> is the draw binding.\<close>

definition bindFramebuffer :: "fb_target \<Rightarrow> handle option \<Rightarrow> gl_context \<Rightarrow> gl_context" where
  "bindFramebuffer tgt fb g =
     logged (BindFramebuffer tgt fb)
       (case tgt of
          FRAMEBUFFER \<Rightarrow> g\<lparr>draw_binding := fb, read_binding := fb\<rparr>
        | READ_FRAMEBUFFER \<Rightarrow> g\<lparr>read_binding := fb\<rparr>
        | DRAW_FRAMEBUFFER \<Rightarrow> g\<lparr>draw_binding := fb\<rparr>)"

definition framebufferTexture2D :: "handle option \<Rightarrow> gl_context \<Rightarrow> gl_context" where
  "framebufferTexture2D tex g = logged (FramebufferTexture2D tex) g"

text \<open>The result is \<open>True\<close> for \<^verbatim>\<open>FRAMEBUFFER_COMPLETE\<close>.\<close>

definition checkFramebufferStatus :: "gl_context \<Rightarrow> bool \<times> gl_context" where
  "checkFramebufferStatus g =
     (let (ok, rest) = next_outcome (status_outcomes g)
      in (ok, logged CheckFramebufferStatus (g\<lparr>status_outcomes := rest\<rparr>)))"

definition deleteFramebuffer :: "handle option \<Rightarrow> gl_context \<Rightarrow> gl_context" where
  "deleteFramebuffer fb g =
     logged (DeleteFramebuffer fb)
       (case fb of None \<Rightarrow> g
        | Some h \<Rightarrow> g\<lparr>live_framebuffers := live_framebuffers g - {h}\<rparr>)"

definition getParameter_FRAMEBUFFER_BINDING :: "gl_context \<Rightarrow> handle option \<times> gl_context" where
  "getParameter_FRAMEBUFFER_BINDING g = (draw_binding g, logged GetParameter_FRAMEBUFFER_BINDING g)"

definition blitFramebuffer ::
  "int \<Rightarrow> int \<Rightarrow> int \<Rightarrow> int \<Rightarrow> int \<Rightarrow> int \<Rightarrow> int \<Rightarrow> int \<Rightarrow> buffer_bit list \<Rightarrow> tex_value
     \<Rightarrow> gl_context \<Rightarrow> gl_context" where
  "blitFramebuffer sx0 sy0 sx1 sy1 dx0 dy0 dx1 dy1 bits flt g =
     logged (BlitFramebuffer sx0 sy0 sx1 sy1 dx0 dy0 dx1 dy1 bits flt) g"

definition clearColor :: "real \<Rightarrow> real \<Rightarrow> real \<Rightarrow> real \<Rightarrow> gl_context \<Rightarrow> gl_context" where
  "clearColor r g b a ctx = logged (ClearColor r g b a) ctx"

definition clear_gl :: "buffer_bit list \<Rightarrow> gl_context \<Rightarrow> gl_context" where
  "clear_gl bits ctx = logged (Clear bits) ctx"

text \<open>The calls a context received between two of its states.\<close>

definition calls_since :: "gl_context \<Rightarrow> gl_context \<Rightarrow> gl_call list" where
  "calls_since before after = drop (length (calls before)) (calls after)"

fun is_blit :: "gl_call \<Rightarrow> bool" where
  "is_blit (BlitFramebuffer _ _ _ _ _ _ _ _ _ _) = True"
| "is_blit _ = False"

fun is_bind_framebuffer :: "gl_call \<Rightarrow> bool" where
  "is_bind_framebuffer (BindFramebuffer _ _) = True"
| "is_bind_framebuffer _ = False"

section \<open>The render target\<close>

text \<open>
  The fields of \<^verbatim>\<open>CubismRenderTarget_WebGL\<close>. A field that holds null or an object is an
  option. An exception leaves the assignments made before it in place, so every method
  returns its outcome together with the target and the store as they are at that point.
  \<open>TypeError\<close> is what JavaScript raises for a method call on null (\<^verbatim>\<open>this._gl\<close> is null
  until an allocation succeeds); \<open>CapabilityError\<close> is the
  \<^verbatim>\<open>Error('WebGL2RenderingContext is required for buffer copy.')\<close> of \<^verbatim>\<open>copyBuffer\<close>.
\<close>

datatype error = TypeError | CapabilityError

record render_target =
  gl :: "ctx_id option"
  colorBuffer :: "handle option"
  renderTexture :: "handle option"
  bufferWidth :: int
  bufferHeight :: int
  oldFbo :: "handle option"
  offscreenIndex :: int
  parentOffscreenRenderTarget :: "target_id option"
  oldOffscreen :: "target_id option"

definition constructor :: render_target where
  "constructor =
     \<lparr>gl = None, colorBuffer = None, renderTexture = None, bufferWidth = 0,
      bufferHeight = 0, oldFbo = None, offscreenIndex = - 1,
      parentOffscreenRenderTarget = None, oldOffscreen = None\<rparr>"

definition getRenderTexture :: "render_target \<Rightarrow> handle option" where
  "getRenderTexture t = renderTexture t"

definition getColorBuffer :: "render_target \<Rightarrow> handle option" where
  "getColorBuffer t = colorBuffer t"

definition getBufferWidth :: "render_target \<Rightarrow> int" where
  "getBufferWidth t = bufferWidth t"

definition getBufferHeight :: "render_target \<Rightarrow> int" where
  "getBufferHeight t = bufferHeight t"

definition isValid :: "render_target \<Rightarrow> bool" where
  "isValid t = (renderTexture t \<noteq> None)"

definition getOldFBO :: "render_target \<Rightarrow> handle option" where
  "getOldFBO t = oldFbo t"

definition copyBuffer ::
  "ctx_id \<Rightarrow> render_target option \<Rightarrow> render_target option \<Rightarrow> store \<Rightarrow> (error + unit) \<times> store" where
  "copyBuffer c src dst S =
     (case (src, dst) of
        (Some s, Some d) \<Rightarrow>
          if \<not> is_webgl2 (S c) then (Inl CapabilityError, S)
          else
            let (previousFramebuffer, g1) = getParameter_FRAMEBUFFER_BINDING (S c);
                g2 = bindFramebuffer READ_FRAMEBUFFER (getRenderTexture s) g1;
                g3 = bindFramebuffer DRAW_FRAMEBUFFER (getRenderTexture d) g2;
                g4 = blitFramebuffer 0 0 (getBufferWidth s) (getBufferHeight s)
                       0 0 (getBufferWidth d) (getBufferHeight d) [COLOR_BUFFER_BIT] NEAREST g3;
                g5 = bindFramebuffer FRAMEBUFFER previousFramebuffer g4
            in (Inr (), S(c := g5))
      | _ \<Rightarrow> (Inr (), S))"

definition beginDraw ::
  "render_target \<Rightarrow> handle option \<Rightarrow> store \<Rightarrow> (error + unit) \<times> render_target \<times> store" where
  "beginDraw t restoreFbo S =
     (case renderTexture t of
        None \<Rightarrow> (Inr (), t, S)
      | Some fb \<Rightarrow>
          (case gl t of
             None \<Rightarrow>
               (Inl TypeError,
                (case restoreFbo of None \<Rightarrow> t | Some r \<Rightarrow> t\<lparr>oldFbo := Some r\<rparr>), S)
           | Some c \<Rightarrow>
               let (t1, g1) =
                     (case restoreFbo of
                        None \<Rightarrow>
                          let (b, g) = getParameter_FRAMEBUFFER_BINDING (S c)
                          in (t\<lparr>oldFbo := b\<rparr>, g)
                      | Some r \<Rightarrow> (t\<lparr>oldFbo := Some r\<rparr>, S c))
               in (Inr (), t1, S(c := bindFramebuffer FRAMEBUFFER (Some fb) g1))))"

definition endDraw :: "render_target \<Rightarrow> store \<Rightarrow> (error + unit) \<times> render_target \<times> store" where
  "endDraw t S =
     (case gl t of
        None \<Rightarrow> (Inl TypeError, t, S)
      | Some c \<Rightarrow> (Inr (), t, S(c := bindFramebuffer FRAMEBUFFER (oldFbo t) (S c))))"

definition clear ::
  "render_target \<Rightarrow> real \<Rightarrow> real \<Rightarrow> real \<Rightarrow> real \<Rightarrow> store
     \<Rightarrow> (error + unit) \<times> render_target \<times> store" where
  "clear t r g b a S =
     (case gl t of
        None \<Rightarrow> (Inl TypeError, t, S)
      | Some c \<Rightarrow> (Inr (), t, S(c := clear_gl [COLOR_BUFFER_BIT] (clearColor r g b a (S c)))))"

definition destroyRenderTarget ::
  "render_target \<Rightarrow> store \<Rightarrow> (error + unit) \<times> render_target \<times> store" where
  "destroyRenderTarget t S =
     (let (r1, t1, S1) =
            (case colorBuffer t of
               None \<Rightarrow> (Inr (), t, S)
             | Some tex \<Rightarrow>
                 (case gl t of
                    None \<Rightarrow> (Inl TypeError, t, S)
                  | Some c \<Rightarrow>
                      (Inr (), t\<lparr>colorBuffer := None\<rparr>,
                       S(c := deleteTexture (Some tex) (bindTexture None (S c))))))
      in case r1 of
           Inl e \<Rightarrow> (Inl e, t1, S1)
         | Inr _ \<Rightarrow>
             (case renderTexture t1 of
                None \<Rightarrow> (Inr (), t1, S1)
              | Some fb \<Rightarrow>
                  (case gl t1 of
                     None \<Rightarrow> (Inl TypeError, t1, S1)
                   | Some c \<Rightarrow>
                       (Inr (), t1\<lparr>renderTexture := None\<rparr>,
                        S1(c := deleteFramebuffer (Some fb)
                                  (bindFramebuffer FRAMEBUFFER None (S1 c)))))))"

definition createOffscreenRenderTarget ::
  "render_target \<Rightarrow> ctx_id \<Rightarrow> int \<Rightarrow> int \<Rightarrow> handle option \<Rightarrow> store
     \<Rightarrow> (error + bool) \<times> render_target \<times> store" where
  "createOffscreenRenderTarget t c displayBufferWidth displayBufferHeight previousFramebuffer S =
     (case destroyRenderTarget t S of
        (Inl e, t0, S0) \<Rightarrow> (Inl e, t0, S0)
      | (Inr _, t0, S0) \<Rightarrow>
          (let (tex, g1) = createTexture (S0 c);
               t1 = t0\<lparr>colorBuffer := tex\<rparr>;
               g2 = bindTexture tex g1;
               g3 = texImage2D displayBufferWidth displayBufferHeight g2;
               g4 = texParameteri TEXTURE_WRAP_S CLAMP_TO_EDGE g3;
               g5 = texParameteri TEXTURE_WRAP_T CLAMP_TO_EDGE g4;
               g6 = texParameteri TEXTURE_MIN_FILTER LINEAR g5;
               g7 = texParameteri TEXTURE_MAG_FILTER LINEAR g6;
               g8 = bindTexture None g7;
               (ret, g9) = createFramebuffer g8
           in (case ret of
                 None \<Rightarrow> (Inr False, t1, S0(c := g9))
               | Some fb \<Rightarrow>
                   (let g10 = bindFramebuffer FRAMEBUFFER (Some fb) g9;
                        g11 = framebufferTexture2D (colorBuffer t1) g10;
                        (complete, g12) = checkFramebufferStatus g11
                    in if \<not> complete
                       then
                         (let g13 = bindFramebuffer FRAMEBUFFER previousFramebuffer g12;
                              g14 = deleteFramebuffer (Some fb) g13
                          in (case destroyRenderTarget t1 (S0(c := g14)) of
                                (Inl e, t2, S2) \<Rightarrow> (Inl e, t2, S2)
                              | (Inr _, t2, S2) \<Rightarrow> (Inr False, t2, S2)))
                       else
                         (Inr True,
                          t1\<lparr>renderTexture := Some fb, bufferWidth := displayBufferWidth,
                             bufferHeight := displayBufferHeight, gl := Some c\<rparr>,
                          S0(c := g12))))))"

section \<open>Concrete runs\<close>

text \<open>A context on which nothing has happened yet; the arguments say whether it is a
  WebGL2 context and give the outcome lists.\<close>

definition fresh_context :: "bool \<Rightarrow> bool list \<Rightarrow> bool list \<Rightarrow> bool list \<Rightarrow> gl_context" where
  "fresh_context v2 texs fbs sts =
     \<lparr>is_webgl2 = v2, draw_binding = None, read_binding = None, texture_binding = None,
      live_textures = {}, live_framebuffers = {}, next_handle = 1,
      texture_outcomes = texs, framebuffer_outcomes = fbs, status_outcomes = sts,
      calls = []\<rparr>"

text \<open>Stores in which every context is fresh: WebGL2 contexts where every call succeeds,
  WebGL1 contexts, WebGL2 contexts whose first \<^verbatim>\<open>createFramebuffer\<close> returns null, and
  WebGL2 contexts whose first framebuffer is reported incomplete.\<close>

definition webgl2_store :: store where
  "webgl2_store k = fresh_context True [] [] []"

definition webgl1_store :: store where
  "webgl1_store k = fresh_context False [] [] []"

definition no_framebuffer_store :: store where
  "no_framebuffer_store k = fresh_context True [] [False] []"

definition incomplete_store :: store where
  "incomplete_store k = fresh_context True [] [] [False]"

abbreviation outcome :: "'r \<times> render_target \<times> store \<Rightarrow> 'r" where
  "outcome x \<equiv> fst x"

abbreviation target_of :: "'r \<times> render_target \<times> store \<Rightarrow> render_target" where
  "target_of x \<equiv> fst (snd x)"

abbreviation store_of :: "'r \<times> render_target \<times> store \<Rightarrow> store" where
  "store_of x \<equiv> snd (snd x)"

text \<open>Two targets A and B allocated one after the other on context 0: A gets texture 1
  and framebuffer 2, B gets texture 3 and framebuffer 4, which stays bound.\<close>

definition allocA :: "(error + bool) \<times> render_target \<times> store" where
  "allocA = createOffscreenRenderTarget constructor 0 4 4 None webgl2_store"

definition allocB :: "(error + bool) \<times> render_target \<times> store" where
  "allocB = createOffscreenRenderTarget constructor 0 8 8 None (store_of allocA)"

text \<open>A draws (begin, end), is destroyed, and \<^verbatim>\<open>endDraw\<close> is called on it once more.\<close>

definition A_begin :: "(error + unit) \<times> render_target \<times> store" where
  "A_begin = beginDraw (target_of allocA) None (store_of allocB)"

definition A_end :: "(error + unit) \<times> render_target \<times> store" where
  "A_end = endDraw (target_of A_begin) (store_of A_begin)"

definition A_destroy :: "(error + unit) \<times> render_target \<times> store" where
  "A_destroy = destroyRenderTarget (target_of A_end) (store_of A_end)"

definition A_end_again :: "(error + unit) \<times> render_target \<times> store" where
  "A_end_again = endDraw (target_of A_destroy) (store_of A_destroy)"

text \<open>B draws inside A's pass.\<close>

definition B_begin_nested :: "(error + unit) \<times> render_target \<times> store" where
  "B_begin_nested = beginDraw (target_of allocB) None (store_of A_begin)"

definition B_end_nested :: "(error + unit) \<times> render_target \<times> store" where
  "B_end_nested = endDraw (target_of B_begin_nested) (store_of B_begin_nested)"

definition A_end_nested :: "(error + unit) \<times> render_target \<times> store" where
  "A_end_nested = endDraw (target_of A_begin) (store_of B_end_nested)"

text \<open>A is destroyed twice right after its allocation.\<close>

definition destroy_once :: "(error + unit) \<times> render_target \<times> store" where
  "destroy_once = destroyRenderTarget (target_of allocA) (store_of allocA)"

definition destroy_twice :: "(error + unit) \<times> render_target \<times> store" where
  "destroy_twice = destroyRenderTarget (target_of destroy_once) (store_of destroy_once)"

text \<open>Allocations that fail on a newly constructed target, and the allocation that
  follows each of them on the same target and context.\<close>

definition failed_framebuffer_run :: "(error + bool) \<times> render_target \<times> store" where
  "failed_framebuffer_run =
     createOffscreenRenderTarget constructor 0 4 4 None no_framebuffer_store"

definition incomplete_run :: "(error + bool) \<times> render_target \<times> store" where
  "incomplete_run = createOffscreenRenderTarget constructor 0 4 4 None incomplete_store"

definition retry_after_failed_framebuffer :: "(error + bool) \<times> render_target \<times> store" where
  "retry_after_failed_framebuffer =
     createOffscreenRenderTarget (target_of failed_framebuffer_run) 0 4 4 None
       (store_of failed_framebuffer_run)"

definition retry_after_incomplete :: "(error + bool) \<times> render_target \<times> store" where
  "retry_after_incomplete =
     createOffscreenRenderTarget (target_of incomplete_run) 0 4 4 None
       (store_of incomplete_run)"

section \<open>Properties\<close>

lemmas gl_defs = logged_def createTexture_def bindTexture_def texImage2D_def
  texParameteri_def deleteTexture_def createFramebuffer_def bindFramebuffer_def
  framebufferTexture2D_def checkFramebufferStatus_def deleteFramebuffer_def
  getParameter_FRAMEBUFFER_BINDING_def blitFramebuffer_def clearColor_def clear_gl_def
  calls_since_def

lemmas getter_defs = getRenderTexture_def getColorBuffer_def getBufferWidth_def
  getBufferHeight_def isValid_def getOldFBO_def

lemmas method_defs = createOffscreenRenderTarget_def destroyRenderTarget_def beginDraw_def
  endDraw_def copyBuffer_def constructor_def fresh_context_def

lemmas store_defs = webgl2_store_def webgl1_store_def no_framebuffer_store_def
  incomplete_store_def

subsection \<open>Helper facts about destroyRenderTarget and createOffscreenRenderTarget\<close>

lemma destroy_with_context:
  assumes "gl t = Some c" and "destroyRenderTarget t S = (r, t', S')"
  shows "r = Inr () \<and> colorBuffer t' = None \<and> renderTexture t' = None \<and> gl t' = Some c"
  using assms by (auto simp: destroyRenderTarget_def Let_def split: option.splits)

lemma destroy_nothing_owned:
  assumes "colorBuffer t = None" and "renderTexture t = None"
  shows "destroyRenderTarget t S = (Inr (), t, S)"
  using assms by (simp add: destroyRenderTarget_def)

lemma create_success_fields:
  assumes "createOffscreenRenderTarget t c w h prev S = (Inr True, t1, S1)"
  shows "renderTexture t1 \<noteq> None \<and> gl t1 = Some c \<and> bufferWidth t1 = w \<and> bufferHeight t1 = h"
  using assms
  by (auto simp: createOffscreenRenderTarget_def Let_def
           split: prod.splits sum.splits option.splits if_splits)

lemma allocA_eval:
  "outcome allocA = Inr True \<and> gl (target_of allocA) = Some 0 \<and>
   colorBuffer (target_of allocA) = Some 1 \<and> renderTexture (target_of allocA) = Some 2"
  by (simp add: allocA_def store_defs method_defs gl_defs)

lemma allocB_eval:
  "outcome allocB = Inr True \<and> gl (target_of allocB) = Some 0 \<and>
   colorBuffer (target_of allocB) = Some 3 \<and> renderTexture (target_of allocB) = Some 4 \<and>
   draw_binding (store_of allocB 0) = Some 4 \<and> is_webgl2 (store_of allocB 0)"
  by (simp add: allocB_def allocA_def store_defs method_defs gl_defs)

subsection \<open>Allocation on a target that holds a context\<close>

text \<open>
  Once an allocation has succeeded, \<^verbatim>\<open>this._gl\<close> is set and \<^verbatim>\<open>destroyRenderTarget\<close>
  cannot raise: it returns normally, leaves the target without texture and framebuffer,
  creates nothing on the target's context and does not consume any outcome.
\<close>

lemma destroy_context_effect:
  assumes "gl t = Some c" and "destroyRenderTarget t S = (r, t0, S0)"
  shows "r = Inr () \<and> colorBuffer t0 = None \<and> renderTexture t0 = None \<and> gl t0 = Some c \<and>
         live_textures (S0 c) \<subseteq> live_textures (S c) \<and>
         live_framebuffers (S0 c) \<subseteq> live_framebuffers (S c) \<and>
         texture_outcomes (S0 c) = texture_outcomes (S c) \<and>
         framebuffer_outcomes (S0 c) = framebuffer_outcomes (S c) \<and>
         status_outcomes (S0 c) = status_outcomes (S c)"
  using assms
  by (cases "colorBuffer t"; cases "renderTexture t")
     (auto simp: destroyRenderTarget_def gl_defs)

text \<open>
  On a target that already holds the context \<open>c\<close>, an allocation on \<open>c\<close> whose framebuffer
  is created and reported incomplete rolls back as intended: it returns false, the target
  keeps neither texture nor framebuffer, the previous framebuffer is bound, and no texture
  or framebuffer is alive that was not alive before.
\<close>

lemma incomplete_rollback_with_context:
  assumes "gl t = Some c"
      and "fst (next_outcome (framebuffer_outcomes (S c)))"
      and "\<not> fst (next_outcome (status_outcomes (S c)))"
  shows "outcome (createOffscreenRenderTarget t c w h prev S) = Inr False \<and>
         colorBuffer (target_of (createOffscreenRenderTarget t c w h prev S)) = None \<and>
         renderTexture (target_of (createOffscreenRenderTarget t c w h prev S)) = None \<and>
         draw_binding (store_of (createOffscreenRenderTarget t c w h prev S) c) = prev \<and>
         live_textures (store_of (createOffscreenRenderTarget t c w h prev S) c)
           \<subseteq> live_textures (S c) \<and>
         live_framebuffers (store_of (createOffscreenRenderTarget t c w h prev S) c)
           \<subseteq> live_framebuffers (S c)"
proof -
  obtain r t0 S0 where d: "destroyRenderTarget t S = (r, t0, S0)"
    by (cases "destroyRenderTarget t S")
  from destroy_context_effect[OF assms(1) d]
  have e: "r = Inr ()" "colorBuffer t0 = None" "renderTexture t0 = None" "gl t0 = Some c"
    "live_textures (S0 c) \<subseteq> live_textures (S c)"
    "live_framebuffers (S0 c) \<subseteq> live_framebuffers (S c)"
    "texture_outcomes (S0 c) = texture_outcomes (S c)"
    "framebuffer_outcomes (S0 c) = framebuffer_outcomes (S c)"
    "status_outcomes (S0 c) = status_outcomes (S c)"
    by simp_all
  obtain b1 r1 where o1: "next_outcome (texture_outcomes (S c)) = (b1, r1)"
    by (cases "next_outcome (texture_outcomes (S c))")
  obtain r2 where o2: "next_outcome (framebuffer_outcomes (S c)) = (True, r2)"
    using assms(2) by (cases "next_outcome (framebuffer_outcomes (S c))") auto
  obtain r3 where o3: "next_outcome (status_outcomes (S c)) = (False, r3)"
    using assms(3) by (cases "next_outcome (status_outcomes (S c))") auto
  show ?thesis
    unfolding createOffscreenRenderTarget_def d
    using e(5,6)
    by (cases b1)
       (auto simp add: e(1-4,7-9) destroyRenderTarget_def gl_defs Let_def o1 o2 o3)
qed

text \<open>
  On a target that owns a texture and a framebuffer and holds the context \<open>c\<close>, an
  allocation on \<open>c\<close> first unbinds and deletes the old texture, then unbinds and deletes
  the old framebuffer, and only then creates the new texture, whatever the outcomes of the
  creations and of the completeness check.
\<close>

lemma reallocate_releases_first:
  assumes "gl t = Some c" and "colorBuffer t = Some tex" and "renderTexture t = Some fb"
  shows "take 5 (calls_since (S c) (store_of (createOffscreenRenderTarget t c w h prev S) c)) =
           [BindTexture None, DeleteTexture (Some tex),
            BindFramebuffer FRAMEBUFFER None, DeleteFramebuffer (Some fb), CreateTexture]"
proof -
  obtain b1 r1 where o1: "next_outcome (texture_outcomes (S c)) = (b1, r1)"
    by (cases "next_outcome (texture_outcomes (S c))")
  obtain b2 r2 where o2: "next_outcome (framebuffer_outcomes (S c)) = (b2, r2)"
    by (cases "next_outcome (framebuffer_outcomes (S c))")
  obtain b3 r3 where o3: "next_outcome (status_outcomes (S c)) = (b3, r3)"
    by (cases "next_outcome (status_outcomes (S c))")
  show ?thesis
    by (cases b1; cases b2; cases b3)
       (simp_all add: createOffscreenRenderTarget_def destroyRenderTarget_def assms
          gl_defs Let_def o1 o2 o3)
qed

subsection \<open>Allocation failure\<close>

text \<open>
  Claim C1 says that every failing allocation returns false, leaves the previous binding
  active, releases the texture and the framebuffer it had created and leaves the target
  without resources. The code does not: on a newly constructed target whose framebuffer is
  reported incomplete, the rollback calls \<^verbatim>\<open>destroyRenderTarget\<close>, which dereferences
  \<^verbatim>\<open>this._gl\<close> while it is still null, so the call raises a TypeError instead of
  returning false, and texture 1 is neither deleted nor dropped from \<^verbatim>\<open>_colorBuffer\<close>.
  When \<^verbatim>\<open>createFramebuffer\<close> returns null the call returns false at once, again with
  texture 1 alive and still held by the target.
\<close>

theorem allocate_failure_keeps_texture:
  "outcome incomplete_run = Inl TypeError \<and>
   getColorBuffer (target_of incomplete_run) = Some 1 \<and>
   live_textures (store_of incomplete_run 0) = {1} \<and>
   live_framebuffers (store_of incomplete_run 0) = {} \<and>
   draw_binding (store_of incomplete_run 0) = None \<and>
   outcome failed_framebuffer_run = Inr False \<and>
   isValid (target_of failed_framebuffer_run) = False \<and>
   getColorBuffer (target_of failed_framebuffer_run) = Some 1 \<and>
   live_textures (store_of failed_framebuffer_run 0) = {1} \<and>
   filter is_bind_framebuffer (calls (store_of failed_framebuffer_run 0)) = []"
  by (simp add: incomplete_run_def failed_framebuffer_run_def store_defs method_defs
        gl_defs getter_defs)

subsection \<open>Ownership invariant\<close>

text \<open>
  Claim C2 says that after every sequence of operations a target owns either nothing or
  one texture together with one framebuffer. The sequence "construct, then allocate on a
  context whose \<^verbatim>\<open>createFramebuffer\<close> returns null" ends in a third state: the target
  holds texture 1 and no framebuffer.
\<close>

theorem failed_allocate_breaks_ownership:
  "getColorBuffer constructor = None \<and> getRenderTexture constructor = None \<and>
   outcome failed_framebuffer_run = Inr False \<and>
   getColorBuffer (target_of failed_framebuffer_run) = Some 1 \<and>
   getRenderTexture (target_of failed_framebuffer_run) = None"
  by (simp add: failed_framebuffer_run_def store_defs method_defs gl_defs getter_defs)

subsection \<open>Allocate and destroy\<close>

text \<open>
  Claim C3: if \<^verbatim>\<open>createOffscreenRenderTarget\<close> returns true, the target is valid and
  reports the requested width and height; \<^verbatim>\<open>destroyRenderTarget\<close> then returns normally
  and leaves the target invalid; a second \<^verbatim>\<open>destroyRenderTarget\<close> returns normally and
  changes neither the target nor any context (so it makes no context call). This holds
  for every width and height, positive or not.
\<close>

theorem allocate_destroy_roundtrip:
  assumes "createOffscreenRenderTarget t c w h prev S = (Inr True, t1, S1)"
      and "destroyRenderTarget t1 S1 = (r2, t2, S2)"
      and "destroyRenderTarget t2 S2 = (r3, t3, S3)"
  shows "isValid t1 \<and> getBufferWidth t1 = w \<and> getBufferHeight t1 = h \<and>
         r2 = Inr () \<and> \<not> isValid t2 \<and>
         r3 = Inr () \<and> t3 = t2 \<and> S3 = S2"
proof -
  from create_success_fields[OF assms(1)]
  have f: "renderTexture t1 \<noteq> None" "gl t1 = Some c" "bufferWidth t1 = w" "bufferHeight t1 = h"
    by simp_all
  from destroy_with_context[OF f(2) assms(2)]
  have d: "r2 = Inr ()" "colorBuffer t2 = None" "renderTexture t2 = None"
    by simp_all
  from destroy_nothing_owned[OF d(2) d(3), of S2] assms(3)
  have e: "r3 = Inr ()" "t3 = t2" "S3 = S2"
    by simp_all
  show ?thesis using f d e by (simp add: getter_defs)
qed

theorem allocate_destroy_roundtrip_witness:
  "outcome allocA = Inr True \<and> isValid (target_of allocA) \<and>
   getBufferWidth (target_of allocA) = 4 \<and> getBufferHeight (target_of allocA) = 4 \<and>
   outcome destroy_once = Inr () \<and> \<not> isValid (target_of destroy_once) \<and>
   destroy_twice = (Inr (), target_of destroy_once, store_of destroy_once)"
proof -
  have a: "createOffscreenRenderTarget constructor 0 4 4 None webgl2_store =
             (Inr True, target_of allocA, store_of allocA)"
    using allocA_eval by (simp add: allocA_def prod_eq_iff)
  have b: "destroyRenderTarget (target_of allocA) (store_of allocA) =
             (outcome destroy_once, target_of destroy_once, store_of destroy_once)"
    by (simp add: destroy_once_def)
  have c: "destroyRenderTarget (target_of destroy_once) (store_of destroy_once) =
             (outcome destroy_twice, target_of destroy_twice, store_of destroy_twice)"
    by (simp add: destroy_twice_def)
  show ?thesis
    using allocate_destroy_roundtrip[OF a b c] allocA_eval by (simp add: prod_eq_iff)
qed

subsection \<open>Nested drawing\<close>

text \<open>
  Claim C4: let A and B be two valid targets (two objects, each with its own
  \<^verbatim>\<open>_oldFbo\<close>) on the same context \<open>c\<close>. Then \<^verbatim>\<open>A.beginDraw(); B.beginDraw(); B.endDraw();
  A.endDraw()\<close>, each \<^verbatim>\<open>beginDraw\<close> without a restore target, raises nothing and leaves the
  framebuffer binding of \<open>c\<close> as it was before \<^verbatim>\<open>A.beginDraw()\<close>. On the way A saves the
  initial binding, B saves A's framebuffer, and each \<^verbatim>\<open>endDraw\<close> binds what its own target
  saved.
\<close>

theorem nested_draw_restores_binding:
  assumes "isValid A" and "isValid B" and "gl A = Some c" and "gl B = Some c"
      and "beginDraw A None S = (r1, A1, S1)"
      and "beginDraw B None S1 = (r2, B1, S2)"
      and "endDraw B1 S2 = (r3, B2, S3)"
      and "endDraw A1 S3 = (r4, A2, S4)"
  shows "r1 = Inr () \<and> r2 = Inr () \<and> r3 = Inr () \<and> r4 = Inr () \<and>
         getOldFBO A1 = draw_binding (S c) \<and> getOldFBO B1 = getRenderTexture A \<and>
         draw_binding (S2 c) = getRenderTexture B \<and>
         draw_binding (S3 c) = getRenderTexture A \<and>
         draw_binding (S4 c) = draw_binding (S c)"
  using assms
  by (auto simp: beginDraw_def endDraw_def gl_defs getter_defs Let_def
           split: option.splits prod.splits)

theorem nested_draw_restores_binding_witness:
  "isValid (target_of allocA) \<and> isValid (target_of allocB) \<and>
   gl (target_of allocA) = Some 0 \<and> gl (target_of allocB) = Some 0 \<and>
   draw_binding (store_of allocB 0) = Some 4 \<and>
   draw_binding (store_of B_begin_nested 0) = Some 4 \<and>
   draw_binding (store_of B_end_nested 0) = Some 2 \<and>
   draw_binding (store_of A_end_nested 0) = Some 4"
proof -
  have v: "isValid (target_of allocA)" "isValid (target_of allocB)"
    using allocA_eval allocB_eval by (simp_all add: isValid_def)
  have g: "gl (target_of allocA) = Some 0" "gl (target_of allocB) = Some 0"
    using allocA_eval allocB_eval by simp_all
  have s1: "beginDraw (target_of allocA) None (store_of allocB) =
              (outcome A_begin, target_of A_begin, store_of A_begin)"
    by (simp add: A_begin_def)
  have s2: "beginDraw (target_of allocB) None (store_of A_begin) =
              (outcome B_begin_nested, target_of B_begin_nested, store_of B_begin_nested)"
    by (simp add: B_begin_nested_def)
  have s3: "endDraw (target_of B_begin_nested) (store_of B_begin_nested) =
              (outcome B_end_nested, target_of B_end_nested, store_of B_end_nested)"
    by (simp add: B_end_nested_def)
  have s4: "endDraw (target_of A_begin) (store_of B_end_nested) =
              (outcome A_end_nested, target_of A_end_nested, store_of A_end_nested)"
    by (simp add: A_end_nested_def)
  show ?thesis
    using nested_draw_restores_binding[OF v g s1 s2 s3 s4] v g allocA_eval allocB_eval
    by (simp add: getter_defs)
qed

subsection \<open>Drawing on an invalid target\<close>




subsection \<open>endDraw\<close>

text \<open>
  Claim C6 says that \<^verbatim>\<open>endDraw\<close> rebinds the saved binding on every target. On a newly
  constructed target \<^verbatim>\<open>this._gl\<close> is null: \<^verbatim>\<open>endDraw\<close> raises a TypeError and no context
  receives a call.
\<close>

theorem endDraw_new_target_raises:
  "endDraw constructor webgl2_store = (Inl TypeError, constructor, webgl2_store)"
  by (simp add: endDraw_def constructor_def)

text \<open>
  Claim C6 as the code has it: on every target that holds a context, valid or not,
  \<^verbatim>\<open>endDraw\<close> returns normally, leaves the target as it is, and makes exactly one call on
  that context, which binds the target's saved binding \<^verbatim>\<open>_oldFbo\<close> as the framebuffer.
\<close>

theorem endDraw_rebinds_saved:
  assumes "gl t = Some c"
  shows "outcome (endDraw t S) = Inr () \<and> target_of (endDraw t S) = t \<and>
         draw_binding (store_of (endDraw t S) c) = getOldFBO t \<and>
         calls_since (S c) (store_of (endDraw t S) c) =
           [BindFramebuffer FRAMEBUFFER (getOldFBO t)]"
  using assms by (simp add: endDraw_def gl_defs getter_defs)

theorem endDraw_rebinds_saved_witness:
  "gl (target_of A_destroy) = Some 0 \<and> \<not> isValid (target_of A_destroy) \<and>
   getOldFBO (target_of A_destroy) = Some 4 \<and>
   outcome A_end_again = Inr () \<and> target_of A_end_again = target_of A_destroy \<and>
   draw_binding (store_of A_end_again 0) = Some 4 \<and>
   calls_since (store_of A_destroy 0) (store_of A_end_again 0) =
     [BindFramebuffer FRAMEBUFFER (Some 4)]"
proof -
  have e: "gl (target_of A_destroy) = Some 0" "\<not> isValid (target_of A_destroy)"
          "getOldFBO (target_of A_destroy) = Some 4"
    by (simp_all add: A_destroy_def A_end_def A_begin_def allocB_def allocA_def
          store_defs method_defs gl_defs getter_defs)
  show ?thesis
    using endDraw_rebinds_saved[OF e(1), of "store_of A_destroy"] e
    by (simp add: A_end_again_def)
qed

subsection \<open>copyBuffer\<close>

text \<open>
  Claim C7: on a WebGL2 context \<open>c\<close>, with source and destination both present,
  \<^verbatim>\<open>copyBuffer\<close> returns normally and makes exactly these calls on \<open>c\<close>: it reads the
  framebuffer binding, binds the source's framebuffer for reading and the destination's
  for drawing, blits once from \<open>(0, 0, src width, src height)\<close> to
  \<open>(0, 0, dst width, dst height)\<close> with the colour bit alone and nearest filtering, and
  binds the framebuffer it read at entry. The binding after the call is the binding
  before it.
\<close>

theorem copyBuffer_blit:
  assumes "is_webgl2 (S c)"
  shows "fst (copyBuffer c (Some s) (Some d) S) = Inr () \<and>
         calls_since (S c) (snd (copyBuffer c (Some s) (Some d) S) c) =
           [GetParameter_FRAMEBUFFER_BINDING,
            BindFramebuffer READ_FRAMEBUFFER (getRenderTexture s),
            BindFramebuffer DRAW_FRAMEBUFFER (getRenderTexture d),
            BlitFramebuffer 0 0 (getBufferWidth s) (getBufferHeight s)
              0 0 (getBufferWidth d) (getBufferHeight d) [COLOR_BUFFER_BIT] NEAREST,
            BindFramebuffer FRAMEBUFFER (draw_binding (S c))] \<and>
         length (filter is_blit
           (calls_since (S c) (snd (copyBuffer c (Some s) (Some d) S) c))) = 1 \<and>
         draw_binding (snd (copyBuffer c (Some s) (Some d) S) c) = draw_binding (S c)"
  using assms by (simp add: copyBuffer_def gl_defs)

theorem copyBuffer_blit_witness:
  "is_webgl2 (store_of allocB 0) \<and>
   fst (copyBuffer 0 (Some (target_of allocA)) (Some (target_of allocB)) (store_of allocB))
     = Inr () \<and>
   calls_since (store_of allocB 0)
     (snd (copyBuffer 0 (Some (target_of allocA)) (Some (target_of allocB)) (store_of allocB)) 0) =
     [GetParameter_FRAMEBUFFER_BINDING,
      BindFramebuffer READ_FRAMEBUFFER (Some 2),
      BindFramebuffer DRAW_FRAMEBUFFER (Some 4),
      BlitFramebuffer 0 0 4 4 0 0 8 8 [COLOR_BUFFER_BIT] NEAREST,
      BindFramebuffer FRAMEBUFFER (Some 4)] \<and>
   draw_binding
     (snd (copyBuffer 0 (Some (target_of allocA)) (Some (target_of allocB)) (store_of allocB)) 0)
     = Some 4"
proof -
  have w: "is_webgl2 (store_of allocB 0)"
    using allocB_eval by simp
  have d: "getBufferWidth (target_of allocA) = 4" "getBufferHeight (target_of allocA) = 4"
          "getBufferWidth (target_of allocB) = 8" "getBufferHeight (target_of allocB) = 8"
    by (simp_all add: allocB_def allocA_def store_defs method_defs gl_defs getter_defs)
  show ?thesis
    using copyBuffer_blit[of "store_of allocB" 0 "target_of allocA" "target_of allocB"] w d
      allocA_eval allocB_eval
    by (simp add: getRenderTexture_def)
qed

text \<open>
  Claim C8: with source and destination both present and a context that is not a WebGL2
  context, \<^verbatim>\<open>copyBuffer\<close> raises the capability error and leaves every context as it was;
  in particular the context received no call that binds a framebuffer.
\<close>

theorem copyBuffer_capability_gate:
  assumes "\<not> is_webgl2 (S c)"
  shows "copyBuffer c (Some s) (Some d) S = (Inl CapabilityError, S) \<and>
         filter is_bind_framebuffer
           (calls_since (S c) (snd (copyBuffer c (Some s) (Some d) S) c)) = []"
  using assms by (simp add: copyBuffer_def calls_since_def)

theorem copyBuffer_capability_gate_witness:
  "\<not> is_webgl2 (webgl1_store 0) \<and>
   copyBuffer 0 (Some constructor) (Some constructor) webgl1_store =
     (Inl CapabilityError, webgl1_store)"
proof -
  have w: "\<not> is_webgl2 (webgl1_store 0)"
    by (simp add: webgl1_store_def fresh_context_def)
  show ?thesis
    using copyBuffer_capability_gate[of webgl1_store 0 constructor constructor] w by simp
qed

text \<open>
  Claim C10: when the source or the destination is absent, \<^verbatim>\<open>copyBuffer\<close> returns
  normally and leaves every context as it was, so no context receives a call. The
  context's version plays no role: the check for absence comes first, and a context
  without blit support raises no capability error here.
\<close>

theorem copyBuffer_absent_noop:
  assumes "src = None \<or> dst = None"
  shows "copyBuffer c src dst S = (Inr (), S) \<and>
         calls_since (S k) (snd (copyBuffer c src dst S) k) = []"
  using assms by (auto simp: copyBuffer_def calls_since_def split: option.splits)

theorem copyBuffer_absent_noop_witness:
  "\<not> is_webgl2 (webgl1_store 0) \<and>
   copyBuffer 0 None (Some constructor) webgl1_store = (Inr (), webgl1_store) \<and>
   copyBuffer 0 (Some constructor) None webgl1_store = (Inr (), webgl1_store)"
  using copyBuffer_absent_noop[of None "Some constructor" 0 webgl1_store 0]
    copyBuffer_absent_noop[of "Some constructor" None 0 webgl1_store 0]
  by (simp add: webgl1_store_def fresh_context_def)

subsection \<open>Allocating again\<close>

text \<open>
  Claim C9 says that an allocation on a target that owns resources destroys them first, so
  that repeated allocations never leak. After a failed first allocation on a newly
  constructed target the target holds texture 1 while \<^verbatim>\<open>this._gl\<close> is still null. The
  next allocation calls \<^verbatim>\<open>destroyRenderTarget\<close>, which raises a TypeError before any
  context call: texture 1 is never deleted, and the target keeps it. This happens after a
  null \<^verbatim>\<open>createFramebuffer\<close> and after an incomplete framebuffer alike.
\<close>

theorem reallocate_after_failure_raises:
  "outcome failed_framebuffer_run = Inr False \<and>
   outcome retry_after_failed_framebuffer = Inl TypeError \<and>
   calls_since (store_of failed_framebuffer_run 0) (store_of retry_after_failed_framebuffer 0)
     = [] \<and>
   live_textures (store_of retry_after_failed_framebuffer 0) = {1} \<and>
   getColorBuffer (target_of retry_after_failed_framebuffer) = Some 1 \<and>
   outcome retry_after_incomplete = Inl TypeError \<and>
   calls_since (store_of incomplete_run 0) (store_of retry_after_incomplete 0) = [] \<and>
   live_textures (store_of retry_after_incomplete 0) = {1} \<and>
   getColorBuffer (target_of retry_after_incomplete) = Some 1"
  by (simp add: retry_after_failed_framebuffer_def retry_after_incomplete_def
        failed_framebuffer_run_def incomplete_run_def store_defs method_defs gl_defs
        getter_defs)

end
